theory Spec2Isabelle
  imports Complex_Main "HOL-Library.AList"
begin

section \<open>Run state (schemas/workflow_state.py)\<close>

text \<open>
  The phases of a run, in the order of the enum \<^verbatim>\<open>WorkflowPhase\<close>.
\<close>

datatype WorkflowPhase =
    FETCHING_TICKET
  | CHECKING_COMPLETENESS
  | POSTING_CLARIFICATION
  | SCOUTING_REPO
  | FETCHING_CONFLUENCE_DOCS
  | PLANNING
  | PROPOSING_CODE
  | SUGGESTING_TESTS
  | COMPOSING_PR
  | COMPLETED
  | FAILED

text \<open>
  Exceptions are values. The constructor is the Python exception class, the argument is
  the message, which is what \<^verbatim>\<open>str(exc)\<close> and an f-string print.
\<close>

datatype error =
    RuntimeError string
  | ValueError string
  | OperationalError string
  | IntegrityError string

fun str_exc :: "error \<Rightarrow> string" where
  "str_exc (RuntimeError m) = m"
| "str_exc (ValueError m) = m"
| "str_exc (OperationalError m) = m"
| "str_exc (IntegrityError m) = m"

datatype CompletenessDecision = COMPLETE | INCOMPLETE

text \<open>
  The payloads the orchestration reads. Of \<^verbatim>\<open>TicketContext\<close> only the identity and the
  text fields are kept; of \<^verbatim>\<open>CompletenessResult\<close> and \<^verbatim>\<open>PRCompositionResult\<close> the fields
  that the stages and \<^verbatim>\<open>finalize_run\<close> read or write. The payloads of the six stages after
  the branch are opaque to the core and are kept as text.
\<close>

record TicketContext =
  tc_ticket_id :: string
  title :: string
  description :: string

record CompletenessResult =
  cr_ticket_id :: string
  decision :: CompletenessDecision
  completeness_score :: real
  jira_comment_posted :: bool
  jira_comment_id :: "string option"

record PRCompositionResult =
  pr_url :: "string option"
  pr_number :: "int option"
  branch_name :: "string option"

type_synonym RepoContext = string
type_synonym ConfluenceContext = string
type_synonym ImplementationPlan = string
type_synonym CodeProposal = string
type_synonym TestSuggestions = string

text \<open>An entry of \<^verbatim>\<open>mcp_tool_calls\<close> is a small dict of strings.\<close>

type_synonym tool_call = "(string \<times> string) list"

text \<open>
  \<^verbatim>\<open>WorkflowState\<close> is a \<^verbatim>\<open>TypedDict(total=False)\<close>. Every read of an optional slot in
  the source goes through \<^verbatim>\<open>state.get\<close>, which gives \<^verbatim>\<open>None\<close> for an absent key, so an
  absent slot and a slot holding \<^verbatim>\<open>None\<close> are both \<open>None\<close> here. \<^verbatim>\<open>should_stop\<close> is read
  for its truth value only, so an absent key is \<open>False\<close>; an absent or empty
  \<^verbatim>\<open>started_at\<close> is the empty string.
\<close>

record WorkflowState =
  run_id :: string
  ticket_id :: string
  started_at :: string
  ticket_context :: "TicketContext option"
  completeness_result :: "CompletenessResult option"
  repo_context :: "RepoContext option"
  confluence_context :: "ConfluenceContext option"
  implementation_plan :: "ImplementationPlan option"
  code_proposal :: "CodeProposal option"
  test_suggestions :: "TestSuggestions option"
  pr_result :: "PRCompositionResult option"
  current_phase :: WorkflowPhase
  is_complete_ticket :: "bool option"
  should_stop :: bool
  errors :: "string list"
  llm_call_ids :: "string list"
  mcp_tool_calls :: "tool_call list"
  completed_at :: "string option"
  total_llm_calls :: int
  total_tokens_used :: int

text \<open>
  What a stage returns: a dict holding some of the keys of the state. For a key merged by
  overwriting, \<open>None\<close> is "key absent" and \<open>Some v\<close> is "key present with value v" (the
  value of an optional slot may itself be \<open>None\<close>). For the three lists merged by
  \<^verbatim>\<open>operator.add\<close> an absent key and the empty list have the same effect.
\<close>

record StageResult =
  u_ticket_context :: "TicketContext option option"
  u_completeness_result :: "CompletenessResult option option"
  u_repo_context :: "RepoContext option option"
  u_confluence_context :: "ConfluenceContext option option"
  u_implementation_plan :: "ImplementationPlan option option"
  u_code_proposal :: "CodeProposal option option"
  u_test_suggestions :: "TestSuggestions option option"
  u_pr_result :: "PRCompositionResult option option"
  u_current_phase :: "WorkflowPhase option"
  u_is_complete_ticket :: "bool option option"
  u_should_stop :: "bool option"
  u_errors :: "string list"
  u_llm_call_ids :: "string list"
  u_mcp_tool_calls :: "tool_call list"
  u_completed_at :: "string option option"
  u_total_llm_calls :: "int option"
  u_total_tokens_used :: "int option"

definition no_update :: StageResult where
  "no_update = \<lparr>
     u_ticket_context = None, u_completeness_result = None, u_repo_context = None,
     u_confluence_context = None, u_implementation_plan = None, u_code_proposal = None,
     u_test_suggestions = None, u_pr_result = None, u_current_phase = None,
     u_is_complete_ticket = None, u_should_stop = None, u_errors = [],
     u_llm_call_ids = [], u_mcp_tool_calls = [], u_completed_at = None,
     u_total_llm_calls = None, u_total_tokens_used = None \<rparr>"

section \<open>Reducer\<close>

text \<open>
  The graph library merges a stage's dict into the state key by key: a key annotated with
  \<^verbatim>\<open>operator.add\<close> in \<^verbatim>\<open>WorkflowState\<close> (errors, llm_call_ids, mcp_tool_calls) gets
  old + new, every other key present in the dict replaces the old value. The identity
  keys are written by no stage and are left alone.
\<close>

definition overwrite :: "'a \<Rightarrow> 'a option \<Rightarrow> 'a" where
  "overwrite old new = (case new of None \<Rightarrow> old | Some v \<Rightarrow> v)"

definition merge_state :: "WorkflowState \<Rightarrow> StageResult \<Rightarrow> WorkflowState" where
  "merge_state s u = \<lparr>
     run_id = run_id s,
     ticket_id = ticket_id s,
     started_at = started_at s,
     ticket_context = overwrite (ticket_context s) (u_ticket_context u),
     completeness_result = overwrite (completeness_result s) (u_completeness_result u),
     repo_context = overwrite (repo_context s) (u_repo_context u),
     confluence_context = overwrite (confluence_context s) (u_confluence_context u),
     implementation_plan = overwrite (implementation_plan s) (u_implementation_plan u),
     code_proposal = overwrite (code_proposal s) (u_code_proposal u),
     test_suggestions = overwrite (test_suggestions s) (u_test_suggestions u),
     pr_result = overwrite (pr_result s) (u_pr_result u),
     current_phase = overwrite (current_phase s) (u_current_phase u),
     is_complete_ticket = overwrite (is_complete_ticket s) (u_is_complete_ticket u),
     should_stop = overwrite (should_stop s) (u_should_stop u),
     errors = errors s @ u_errors u,
     llm_call_ids = llm_call_ids s @ u_llm_call_ids u,
     mcp_tool_calls = mcp_tool_calls s @ u_mcp_tool_calls u,
     completed_at = overwrite (completed_at s) (u_completed_at u),
     total_llm_calls = overwrite (total_llm_calls s) (u_total_llm_calls u),
     total_tokens_used = overwrite (total_tokens_used s) (u_total_tokens_used u) \<rparr>"

section \<open>Routing (agents/supervisor.py)\<close>

datatype node =
    fetch_ticket
  | completeness_check
  | post_clarification
  | repo_scout
  | confluence_docs
  | planner
  | code_proposal_n
  | test_suggestion
  | pr_composer
  | end_workflow

definition route_after_completeness :: "WorkflowState \<Rightarrow> node" where
  "route_after_completeness state =
     (if should_stop state then post_clarification
      else if is_complete_ticket state = Some True then repo_scout
      else post_clarification)"

text \<open>
  The edges of \<^verbatim>\<open>build_graph\<close>: every node has one fixed successor, except
  \<open>completeness_check\<close>, whose successor is chosen by the routing function on the merged
  state, and \<open>end_workflow\<close>, which leads to END.
\<close>

fun next_node :: "node \<Rightarrow> WorkflowState \<Rightarrow> node option" where
  "next_node fetch_ticket s = Some completeness_check"
| "next_node completeness_check s = Some (route_after_completeness s)"
| "next_node post_clarification s = Some end_workflow"
| "next_node repo_scout s = Some confluence_docs"
| "next_node confluence_docs s = Some planner"
| "next_node planner s = Some code_proposal_n"
| "next_node code_proposal_n s = Some test_suggestion"
| "next_node test_suggestion s = Some pr_composer"
| "next_node pr_composer s = Some end_workflow"
| "next_node end_workflow s = None"

section \<open>Stages\<close>

text \<open>
  What a run meets outside the core during one execution: the outcome of each call to a
  collaborator, the settings, the clock and the identifier generator. \<open>Inl\<close> is the
  exception that the call raises.
  \<^item> \<open>jira_fetch\<close>: the body of the \<^verbatim>\<open>try\<close> in \<^verbatim>\<open>TicketFetcherAgent.run\<close>
    (fetching over MCP, then parsing), by ticket id;
  \<^item> \<open>llm_completeness\<close>: \<^verbatim>\<open>invoke_llm_structured\<close> for the completeness prompt: the
    parsed result, if any, and the call id;
  \<^item> \<open>jira_comment\<close>: building and posting the clarification comment, giving the comment
    id; \<open>jira_label\<close>: applying the label, \<open>Some\<close> being the exception raised;
  \<^item> the six stages after the branch are not part of the core: each is a function from
    the state to the dict it returns, or to the exception it lets escape;
  \<^item> \<open>new_run_id\<close> is \<^verbatim>\<open>uuid.uuid4()\<close>; the \<open>clock_\<close> fields are the readings of the
    clock, the \<open>_fault\<close> fields the exception, if any, that the database engine raises
    during the session of that call; \<open>fromisoformat\<close> parses a timestamp
    (\<open>None\<close>: \<^verbatim>\<open>ValueError\<close>).
\<close>

record env =
  jira_fetch :: "string \<Rightarrow> error + TicketContext"
  completeness_threshold :: real
  llm_completeness :: "TicketContext \<Rightarrow> error + (CompletenessResult option \<times> string)"
  dry_run :: bool
  jira_comment :: "string \<Rightarrow> CompletenessResult \<Rightarrow> error + string option"
  jira_label :: "string \<Rightarrow> error option"
  repo_scout_node :: "WorkflowState \<Rightarrow> error + StageResult"
  confluence_agent_node :: "WorkflowState \<Rightarrow> error + StageResult"
  planner_node :: "WorkflowState \<Rightarrow> error + StageResult"
  code_proposal_node :: "WorkflowState \<Rightarrow> error + StageResult"
  test_suggestion_node :: "WorkflowState \<Rightarrow> error + StageResult"
  pr_composer_node :: "WorkflowState \<Rightarrow> error + StageResult"
  new_run_id :: string
  clock_started_iso :: string
  clock_completed_iso :: string
  clock_create_run :: int
  clock_mark_queued :: int
  clock_finalize :: int
  fromisoformat :: "string \<Rightarrow> int option"
  init_db_fault :: "error option"
  create_run_fault :: "error option"
  mark_queued_fault :: "error option"
  finalize_fault :: "error option"

text \<open>
  The dict with which a stage reports an expected failure: phase FAILED, one entry in
  \<^verbatim>\<open>errors\<close>, and \<^verbatim>\<open>should_stop\<close>.
\<close>

definition failed_result :: "string \<Rightarrow> StageResult" where
  "failed_result msg =
     no_update\<lparr> u_current_phase := Some FAILED, u_errors := [msg], u_should_stop := Some True \<rparr>"

text \<open>\<^verbatim>\<open>TicketFetcherAgent.run\<close> (agents/ticket_fetcher.py).\<close>

definition fetch_ticket_node :: "env \<Rightarrow> WorkflowState \<Rightarrow> StageResult" where
  "fetch_ticket_node e state =
     (case jira_fetch e (ticket_id state) of
        Inr tc \<Rightarrow>
          no_update\<lparr> u_ticket_context := Some (Some tc),
                     u_current_phase := Some CHECKING_COMPLETENESS,
                     u_mcp_tool_calls :=
                       [ [(''tool'', ''jira_get_issue''), (''ticket_id'', ticket_id state)] ] \<rparr>
      | Inl exc \<Rightarrow> failed_result (''ticket_fetcher: '' @ str_exc exc))"

text \<open>\<^verbatim>\<open>CompletenessAgent.run\<close> (agents/completeness_agent.py).\<close>

definition completeness_check_node :: "env \<Rightarrow> WorkflowState \<Rightarrow> StageResult" where
  "completeness_check_node e state =
     (case ticket_context state of
        None \<Rightarrow> failed_result ''completeness_agent: ticket_context is None''
      | Some tc \<Rightarrow>
          (case llm_completeness e tc of
             Inl exc \<Rightarrow> failed_result (''completeness_agent: '' @ str_exc exc)
           | Inr (None, call_id) \<Rightarrow>
               failed_result
                 (''completeness_agent: '' @ ''LLM returned None for CompletenessResult'')
           | Inr (Some result, call_id) \<Rightarrow>
               (let result' = result\<lparr> cr_ticket_id := ticket_id state \<rparr>;
                    is_complete =
                      (completeness_score result' \<ge> completeness_threshold e
                       \<and> decision result' = COMPLETE)
                in no_update\<lparr> u_completeness_result := Some (Some result'),
                              u_is_complete_ticket := Some (Some is_complete),
                              u_current_phase := Some CHECKING_COMPLETENESS,
                              u_llm_call_ids := [call_id],
                              u_total_llm_calls := Some (total_llm_calls state + 1) \<rparr>)))"

text \<open>
  \<^verbatim>\<open>PostClarificationAgent.run\<close>. The comment id is tested for its truth value; the result
  object is changed in place before the label is applied, so the dict returned after a
  failed labelling carries the changed object.
\<close>

definition post_clarification_node :: "env \<Rightarrow> WorkflowState \<Rightarrow> StageResult" where
  "post_clarification_node e state =
     (case completeness_result state of
        None \<Rightarrow>
          no_update\<lparr> u_current_phase := Some POSTING_CLARIFICATION,
                     u_errors := [''post_clarification: completeness_result is None''] \<rparr>
      | Some cr \<Rightarrow>
          if dry_run e then no_update\<lparr> u_current_phase := Some COMPLETED \<rparr>
          else
            (case jira_comment e (ticket_id state) cr of
               Inl exc \<Rightarrow>
                 no_update\<lparr> u_current_phase := Some POSTING_CLARIFICATION,
                            u_errors := [''post_clarification: '' @ str_exc exc],
                            u_completeness_result := Some (Some cr) \<rparr>
             | Inr comment_id \<Rightarrow>
                 (let cr' =
                        (case comment_id of
                           None \<Rightarrow> cr
                         | Some cid \<Rightarrow>
                             if cid = [] then cr
                             else cr\<lparr> jira_comment_posted := True,
                                      jira_comment_id := Some cid \<rparr>)
                  in case jira_label e (ticket_id state) of
                       Some exc \<Rightarrow>
                         no_update\<lparr> u_current_phase := Some POSTING_CLARIFICATION,
                                    u_errors := [''post_clarification: '' @ str_exc exc],
                                    u_completeness_result := Some (Some cr') \<rparr>
                     | None \<Rightarrow>
                         no_update\<lparr> u_completeness_result := Some (Some cr'),
                                    u_current_phase := Some COMPLETED,
                                    u_mcp_tool_calls :=
                                      [ [(''tool'', ''jira_add_comment''),
                                        (''ticket_id'', ticket_id state)] ] \<rparr>)))"

text \<open>\<^verbatim>\<open>end_workflow_node\<close>: the terminal node.\<close>

definition end_workflow_node :: "env \<Rightarrow> WorkflowState \<Rightarrow> StageResult" where
  "end_workflow_node e state =
     no_update\<lparr> u_current_phase := Some COMPLETED,
                u_completed_at := Some (Some (clock_completed_iso e)) \<rparr>"

text \<open>The node functions registered in \<^verbatim>\<open>build_graph\<close>.\<close>

fun run_node :: "env \<Rightarrow> node \<Rightarrow> WorkflowState \<Rightarrow> error + StageResult" where
  "run_node e fetch_ticket s = Inr (fetch_ticket_node e s)"
| "run_node e completeness_check s = Inr (completeness_check_node e s)"
| "run_node e post_clarification s = Inr (post_clarification_node e s)"
| "run_node e repo_scout s = repo_scout_node e s"
| "run_node e confluence_docs s = confluence_agent_node e s"
| "run_node e planner s = planner_node e s"
| "run_node e code_proposal_n s = code_proposal_node e s"
| "run_node e test_suggestion s = test_suggestion_node e s"
| "run_node e pr_composer s = pr_composer_node e s"
| "run_node e end_workflow s = Inr (end_workflow_node e s)"

section \<open>Executor\<close>

text \<open>
  The number of edges from a node to END along the longest path; every edge of the graph
  goes to a node that is strictly nearer.
\<close>

fun distance :: "node \<Rightarrow> nat" where
  "distance end_workflow = 0"
| "distance post_clarification = 1"
| "distance pr_composer = 1"
| "distance test_suggestion = 2"
| "distance code_proposal_n = 3"
| "distance planner = 4"
| "distance confluence_docs = 5"
| "distance repo_scout = 6"
| "distance completeness_check = 7"
| "distance fetch_ticket = 8"

text \<open>
  \<^verbatim>\<open>graph.invoke\<close> from a node: run the node on the state, merge what it returns, follow
  the edge; an exception that escapes a node ends the invocation.
\<close>

function execute :: "env \<Rightarrow> node \<Rightarrow> WorkflowState \<Rightarrow> error + WorkflowState" where
  "execute e n s =
     (case run_node e n s of
        Inl exc \<Rightarrow> Inl exc
      | Inr u \<Rightarrow>
          (let s' = merge_state s u
           in case next_node n s' of
                None \<Rightarrow> Inr s'
              | Some n' \<Rightarrow> execute e n' s'))"
  by pat_completeness auto
termination
proof (relation "measure (\<lambda>(e, n, s). distance n)")
  fix e :: env and n n' :: node and s s' :: WorkflowState and u :: StageResult
  assume "next_node n s' = Some n'"
  then have "distance n' < distance n"
    by (cases n) (auto simp: route_after_completeness_def split: if_splits)
  then show "((e, n', s'), (e, n, s)) \<in> measure (\<lambda>(e, n, s). distance n)"
    by simp
qed simp

declare execute.simps [simp del]





section \<open>Persistence (persistence/models.py, persistence/repository.py)\<close>

datatype RunStatus = RUNNING | COMPLETED_COMPLETE | COMPLETED_INCOMPLETE | RUN_FAILED

datatype PROutcome = PENDING | APPROVED | REJECTED | MERGED | NOT_CREATED

text \<open>
  A row of \<^verbatim>\<open>ticket_runs\<close> without its primary key \<^verbatim>\<open>id\<close>, which is the key under which
  the table holds it. Timestamps are readings of the clock (an integer number of clock
  units), a duration is their difference. \<^verbatim>\<open>error_occurred\<close> is nullable in the schema,
  but the column default and every writer give it a truth value.
\<close>

record TicketRun =
  tr_ticket_id :: string
  status :: RunStatus
  tr_started_at :: int
  tr_completed_at :: "int option"
  tr_completeness_score :: "real option"
  ticket_deemed_incomplete :: "bool option"
  clarification_comment_posted :: bool
  implementation_plan_generated :: bool
  code_proposal_generated :: bool
  tests_suggested :: bool
  tr_pr_url :: "string option"
  tr_pr_number :: "int option"
  pr_branch :: "string option"
  pr_outcome :: PROutcome
  total_duration_seconds :: "int option"
  tr_total_llm_calls :: int
  tr_total_tokens_used :: int
  error_occurred :: bool
  error_phase :: "string option"
  error_message :: "string option"
  final_state_snapshot :: "WorkflowState option"

record ProcessedTicket =
  first_seen_at :: int
  last_run_id :: "string option"
  reprocess_requested :: bool

record TicketGroundTruth =
  truly_incomplete :: bool
  labeled_by :: "string option"
  labeled_at :: int
  gt_notes :: "string option"

text \<open>
  The database: each table is the list of its rows in insertion order, keyed by the
  primary key. \<^verbatim>\<open>session.get\<close> is \<open>map_of\<close>, changing an attribute of a fetched row is
  \<open>AList.update\<close>, \<^verbatim>\<open>session.add\<close> of a new key appends.
\<close>

record store =
  ticket_runs :: "(string \<times> TicketRun) list"
  processed_tickets :: "(string \<times> ProcessedTicket) list"
  ticket_ground_truth :: "(string \<times> TicketGroundTruth) list"

text \<open>
  \<^verbatim>\<open>get_db_session\<close>: the body runs in a transaction that commits, or, when the engine
  raises, rolls back and re-raises; the caller then still has the store it had.
\<close>

definition get_db_session :: "error option \<Rightarrow> error + 'a \<Rightarrow> error + 'a" where
  "get_db_session fault body = (case fault of Some exc \<Rightarrow> Inl exc | None \<Rightarrow> body)"

definition is_ticket_processed :: "error option \<Rightarrow> store \<Rightarrow> string \<Rightarrow> error + bool" where
  "is_ticket_processed fault db tid =
     get_db_session fault
       (case map_of (processed_tickets db) tid of
          None \<Rightarrow> Inr False
        | Some row \<Rightarrow> Inr (\<not> reprocess_requested row))"

definition mark_ticket_queued ::
  "error option \<Rightarrow> store \<Rightarrow> string \<Rightarrow> string \<Rightarrow> int \<Rightarrow> error + store" where
  "mark_ticket_queued fault db tid rid now =
     get_db_session fault
       (case map_of (processed_tickets db) tid of
          Some existing \<Rightarrow>
            Inr (db\<lparr> processed_tickets :=
                   AList.update tid
                     (existing\<lparr> last_run_id := Some rid, reprocess_requested := False \<rparr>)
                     (processed_tickets db) \<rparr>)
        | None \<Rightarrow>
            Inr (db\<lparr> processed_tickets :=
                   processed_tickets db @
                     [(tid, \<lparr> first_seen_at = now, last_run_id = Some rid,
                              reprocess_requested = False \<rparr>)] \<rparr>))"

text \<open>
  \<^verbatim>\<open>create_run\<close> adds without looking: a second row with the same primary key makes the
  commit fail. The other columns take their defaults.
\<close>

definition new_ticket_run :: "string \<Rightarrow> int \<Rightarrow> TicketRun" where
  "new_ticket_run tid now = \<lparr>
     tr_ticket_id = tid, status = RUNNING, tr_started_at = now, tr_completed_at = None,
     tr_completeness_score = None, ticket_deemed_incomplete = None,
     clarification_comment_posted = False, implementation_plan_generated = False,
     code_proposal_generated = False, tests_suggested = False, tr_pr_url = None,
     tr_pr_number = None, pr_branch = None, pr_outcome = NOT_CREATED,
     total_duration_seconds = None, tr_total_llm_calls = 0, tr_total_tokens_used = 0,
     error_occurred = False, error_phase = None, error_message = None,
     final_state_snapshot = None \<rparr>"

definition create_run ::
  "error option \<Rightarrow> store \<Rightarrow> string \<Rightarrow> string \<Rightarrow> int \<Rightarrow> error + store" where
  "create_run fault db rid tid now =
     get_db_session fault
       (case map_of (ticket_runs db) rid of
          Some other \<Rightarrow> Inl (IntegrityError ''UNIQUE constraint failed: ticket_runs.id'')
        | None \<Rightarrow> Inr (db\<lparr> ticket_runs := ticket_runs db @ [(rid, new_ticket_run tid now)] \<rparr>))"

text \<open>The keyword arguments of \<^verbatim>\<open>update_run\<close>: column and value, in order.\<close>

datatype assignment =
    Set_status RunStatus
  | Set_completed_at "int option"
  | Set_completeness_score "real option"
  | Set_ticket_deemed_incomplete "bool option"
  | Set_clarification_comment_posted bool
  | Set_implementation_plan_generated bool
  | Set_code_proposal_generated bool
  | Set_tests_suggested bool
  | Set_pr_url "string option"
  | Set_pr_number "int option"
  | Set_pr_branch "string option"
  | Set_pr_outcome PROutcome
  | Set_total_duration_seconds "int option"
  | Set_total_llm_calls int
  | Set_total_tokens_used int
  | Set_error_occurred bool
  | Set_error_phase "string option"
  | Set_error_message "string option"
  | Set_final_state_snapshot "WorkflowState option"

fun setattr :: "TicketRun \<Rightarrow> assignment \<Rightarrow> TicketRun" where
  "setattr run (Set_status v) = run\<lparr> status := v \<rparr>"
| "setattr run (Set_completed_at v) = run\<lparr> tr_completed_at := v \<rparr>"
| "setattr run (Set_completeness_score v) = run\<lparr> tr_completeness_score := v \<rparr>"
| "setattr run (Set_ticket_deemed_incomplete v) = run\<lparr> ticket_deemed_incomplete := v \<rparr>"
| "setattr run (Set_clarification_comment_posted v) =
     run\<lparr> clarification_comment_posted := v \<rparr>"
| "setattr run (Set_implementation_plan_generated v) =
     run\<lparr> implementation_plan_generated := v \<rparr>"
| "setattr run (Set_code_proposal_generated v) = run\<lparr> code_proposal_generated := v \<rparr>"
| "setattr run (Set_tests_suggested v) = run\<lparr> tests_suggested := v \<rparr>"
| "setattr run (Set_pr_url v) = run\<lparr> tr_pr_url := v \<rparr>"
| "setattr run (Set_pr_number v) = run\<lparr> tr_pr_number := v \<rparr>"
| "setattr run (Set_pr_branch v) = run\<lparr> pr_branch := v \<rparr>"
| "setattr run (Set_pr_outcome v) = run\<lparr> pr_outcome := v \<rparr>"
| "setattr run (Set_total_duration_seconds v) = run\<lparr> total_duration_seconds := v \<rparr>"
| "setattr run (Set_total_llm_calls v) = run\<lparr> tr_total_llm_calls := v \<rparr>"
| "setattr run (Set_total_tokens_used v) = run\<lparr> tr_total_tokens_used := v \<rparr>"
| "setattr run (Set_error_occurred v) = run\<lparr> error_occurred := v \<rparr>"
| "setattr run (Set_error_phase v) = run\<lparr> error_phase := v \<rparr>"
| "setattr run (Set_error_message v) = run\<lparr> error_message := v \<rparr>"
| "setattr run (Set_final_state_snapshot v) = run\<lparr> final_state_snapshot := v \<rparr>"

definition update_run ::
  "error option \<Rightarrow> store \<Rightarrow> string \<Rightarrow> assignment list \<Rightarrow> error + store" where
  "update_run fault db rid kwargs =
     get_db_session fault
       (case map_of (ticket_runs db) rid of
          None \<Rightarrow> Inr db
        | Some run \<Rightarrow>
            Inr (db\<lparr> ticket_runs :=
                   AList.update rid (foldl setattr run kwargs) (ticket_runs db) \<rparr>))"

text \<open>\<^verbatim>\<open>str(phase)\<close> of a member of the enum, and \<^verbatim>\<open>sep.join(xs)\<close>.\<close>

fun str_phase :: "WorkflowPhase \<Rightarrow> string" where
  "str_phase FETCHING_TICKET = ''WorkflowPhase.FETCHING_TICKET''"
| "str_phase CHECKING_COMPLETENESS = ''WorkflowPhase.CHECKING_COMPLETENESS''"
| "str_phase POSTING_CLARIFICATION = ''WorkflowPhase.POSTING_CLARIFICATION''"
| "str_phase SCOUTING_REPO = ''WorkflowPhase.SCOUTING_REPO''"
| "str_phase FETCHING_CONFLUENCE_DOCS = ''WorkflowPhase.FETCHING_CONFLUENCE_DOCS''"
| "str_phase PLANNING = ''WorkflowPhase.PLANNING''"
| "str_phase PROPOSING_CODE = ''WorkflowPhase.PROPOSING_CODE''"
| "str_phase SUGGESTING_TESTS = ''WorkflowPhase.SUGGESTING_TESTS''"
| "str_phase COMPOSING_PR = ''WorkflowPhase.COMPOSING_PR''"
| "str_phase COMPLETED = ''WorkflowPhase.COMPLETED''"
| "str_phase FAILED = ''WorkflowPhase.FAILED''"

fun join :: "string \<Rightarrow> string list \<Rightarrow> string" where
  "join sep [] = []"
| "join sep [x] = x"
| "join sep (x # y # ys) = x @ sep @ join sep (y # ys)"

text \<open>
  \<^verbatim>\<open>finalize_run\<close>. Parsing \<^verbatim>\<open>started_at\<close> comes first and may raise; then the status is
  classified and the row is updated through \<^verbatim>\<open>update_run\<close>. The readings of the clock
  within the call are one instant \<open>now\<close>.
\<close>

definition finalize_run ::
  "error option \<Rightarrow> (string \<Rightarrow> int option) \<Rightarrow> int \<Rightarrow> store \<Rightarrow> string \<Rightarrow> WorkflowState
     \<Rightarrow> error + store" where
  "finalize_run fault parse now db rid state =
     (let phase = current_phase state;
          errs = errors state;
          err_occurred = (errs \<noteq> []);
          completeness = completeness_result state;
          prr = pr_result state
      in case (if started_at state \<noteq> [] then parse (started_at state) else Some now) of
           None \<Rightarrow> Inl (ValueError (''Invalid isoformat string: '' @ started_at state))
         | Some started_dt \<Rightarrow>
             (let duration = now - started_dt;
                  st = (if err_occurred then RUN_FAILED
                        else if is_complete_ticket state = Some False then COMPLETED_INCOMPLETE
                        else COMPLETED_COMPLETE);
                  url = (case prr of None \<Rightarrow> None | Some r \<Rightarrow> pr_url r);
                  num = (case prr of None \<Rightarrow> None | Some r \<Rightarrow> pr_number r);
                  branch = (case prr of None \<Rightarrow> None | Some r \<Rightarrow> branch_name r);
                  outcome =
                    (case prr of
                       None \<Rightarrow> NOT_CREATED
                     | Some r \<Rightarrow>
                         (case pr_url r of
                            None \<Rightarrow> NOT_CREATED
                          | Some link \<Rightarrow> if link = [] then NOT_CREATED else PENDING))
              in update_run fault db rid
                   [Set_status st,
                    Set_completed_at (Some now),
                    Set_completeness_score (map_option completeness_score completeness),
                    Set_ticket_deemed_incomplete
                      (map_option (\<lambda>c. decision c = INCOMPLETE) completeness),
                    Set_clarification_comment_posted
                      (case completeness of None \<Rightarrow> False | Some c \<Rightarrow> jira_comment_posted c),
                    Set_implementation_plan_generated (implementation_plan state \<noteq> None),
                    Set_code_proposal_generated (code_proposal state \<noteq> None),
                    Set_tests_suggested (test_suggestions state \<noteq> None),
                    Set_pr_url url,
                    Set_pr_number num,
                    Set_pr_branch branch,
                    Set_pr_outcome outcome,
                    Set_total_duration_seconds (Some duration),
                    Set_total_llm_calls (total_llm_calls state),
                    Set_total_tokens_used (total_tokens_used state),
                    Set_error_occurred err_occurred,
                    Set_error_phase (if err_occurred then Some (str_phase phase) else None),
                    Set_error_message (if errs \<noteq> [] then Some (join ''; '' errs) else None),
                    Set_final_state_snapshot (Some state)]))"

definition request_reprocess :: "error option \<Rightarrow> store \<Rightarrow> string \<Rightarrow> error + store" where
  "request_reprocess fault db tid =
     get_db_session fault
       (case map_of (processed_tickets db) tid of
          None \<Rightarrow> Inr db
        | Some row \<Rightarrow>
            Inr (db\<lparr> processed_tickets :=
                   AList.update tid (row\<lparr> reprocess_requested := True \<rparr>)
                     (processed_tickets db) \<rparr>))"

definition set_pr_outcome ::
  "error option \<Rightarrow> store \<Rightarrow> string \<Rightarrow> PROutcome \<Rightarrow> error + store" where
  "set_pr_outcome fault db rid outcome = update_run fault db rid [Set_pr_outcome outcome]"

section \<open>Run entry point (agents/supervisor.py)\<close>

definition initial_state :: "env \<Rightarrow> string \<Rightarrow> WorkflowState" where
  "initial_state e tid = \<lparr>
     run_id = new_run_id e, ticket_id = tid, started_at = clock_started_iso e,
     ticket_context = None, completeness_result = None, repo_context = None,
     confluence_context = None, implementation_plan = None, code_proposal = None,
     test_suggestions = None, pr_result = None, current_phase = FETCHING_TICKET,
     is_complete_ticket = None, should_stop = False, errors = [], llm_call_ids = [],
     mcp_tool_calls = [], completed_at = None, total_llm_calls = 0,
     total_tokens_used = 0 \<rparr>"

text \<open>
  The \<^verbatim>\<open>try\<close> around \<^verbatim>\<open>graph.invoke\<close>: the state the graph returns, or, when an
  exception escapes the graph, the initial state marked FAILED with the text of the
  exception as its only error.
\<close>

definition invoke_graph :: "env \<Rightarrow> string \<Rightarrow> WorkflowState" where
  "invoke_graph e tid =
     (case execute e fetch_ticket (initial_state e tid) of
        Inr final_state \<Rightarrow> final_state
      | Inl exc \<Rightarrow>
          (initial_state e tid)\<lparr> current_phase := FAILED,
                                  errors := [str_exc exc],
                                  completed_at := Some (clock_completed_iso e) \<rparr>)"

text \<open>
  \<^verbatim>\<open>run_workflow\<close>: the result is the exception that escapes, or the final state together
  with the store as the run leaves it. Only the invocation of the graph and the call of
  \<^verbatim>\<open>finalize_run\<close> stand inside a \<^verbatim>\<open>try\<close>.
\<close>

definition run_workflow :: "env \<Rightarrow> store \<Rightarrow> string \<Rightarrow> error + (WorkflowState \<times> store)" where
  "run_workflow e db tid =
     (case init_db_fault e of
        Some exc \<Rightarrow> Inl exc
      | None \<Rightarrow>
          (case create_run (create_run_fault e) db (new_run_id e) tid (clock_create_run e) of
             Inl exc \<Rightarrow> Inl exc
           | Inr db1 \<Rightarrow>
               (case mark_ticket_queued (mark_queued_fault e) db1 tid (new_run_id e)
                       (clock_mark_queued e) of
                  Inl exc \<Rightarrow> Inl exc
                | Inr db2 \<Rightarrow>
                    (let final_state = invoke_graph e tid
                     in case finalize_run (finalize_fault e) (fromisoformat e)
                               (clock_finalize e) db2 (new_run_id e) final_state of
                          Inl exc \<Rightarrow> Inr (final_state, db2)
                        | Inr db3 \<Rightarrow> Inr (final_state, db3)))))"

section \<open>Metrics (metrics/poc_metrics.py)\<close>

text \<open>
  The fields of \<^verbatim>\<open>POCMetrics\<close> for the second and third indicator. A rate is the quotient
  of two counts.
\<close>

record POCMetrics =
  total_tickets_processed :: nat
  total_detected_incomplete :: nat
  total_ground_truth_incomplete :: nat
  true_positive_detections :: nat
  incomplete_detection_rate :: real
  kpi2_met :: bool
  kpi2_note :: string
  total_runs :: nat
  total_error_runs :: nat
  consecutive_error_free_runs :: nat
  kpi3_met :: bool

definition new_metrics :: POCMetrics where
  "new_metrics = \<lparr>
     total_tickets_processed = 0, total_detected_incomplete = 0,
     total_ground_truth_incomplete = 0, true_positive_detections = 0,
     incomplete_detection_rate = 0, kpi2_met = False, kpi2_note = [],
     total_runs = 0, total_error_runs = 0, consecutive_error_free_runs = 0,
     kpi3_met = False \<rparr>"

text \<open>
  The join of the text query: the ticket ids of the runs flagged incomplete whose ticket
  has a label saying truly incomplete, one entry per joined pair; the query counts the
  distinct ones.
\<close>

definition true_positive_tickets :: "store \<Rightarrow> string list" where
  "true_positive_tickets db =
     [tr_ticket_id (snd r).
        r \<leftarrow> ticket_runs db, g \<leftarrow> ticket_ground_truth db,
        tr_ticket_id (snd r) = fst g,
        ticket_deemed_incomplete (snd r) = Some True,
        truly_incomplete (snd g)]"

definition compute_kpi2 :: "store \<Rightarrow> POCMetrics \<Rightarrow> POCMetrics" where
  "compute_kpi2 db m =
     (let m1 = m\<lparr> total_tickets_processed := length (ticket_runs db) \<rparr>;
          m2 = m1\<lparr> total_detected_incomplete :=
                     length (filter (\<lambda>r. ticket_deemed_incomplete (snd r) = Some True)
                               (ticket_runs db)) \<rparr>;
          m3 = m2\<lparr> total_ground_truth_incomplete :=
                     length (filter (\<lambda>g. truly_incomplete (snd g))
                               (ticket_ground_truth db)) \<rparr>;
          m4 = (if total_ground_truth_incomplete m3 = 0
                then m3\<lparr> incomplete_detection_rate := 0,
                         kpi2_note :=
                           ''No ground-truth labels found. '' @
                           ''Use 'python -m metrics.label_ticket TICKET-ID --truly-incomplete' to add labels.'' \<rparr>
                else
                  (let m5 = m3\<lparr> true_positive_detections :=
                                   length (remdups (true_positive_tickets db)) \<rparr>
                   in m5\<lparr> incomplete_detection_rate :=
                            real (true_positive_detections m5)
                              / real (total_ground_truth_incomplete m5),
                          kpi2_note := [] \<rparr>))
      in m4\<lparr> kpi2_met := (incomplete_detection_rate m4 \<ge> 0.50) \<rparr>)"

text \<open>
  A run counts as error-free when it has no recorded error and did not fail. The loop of
  \<^verbatim>\<open>_compute_kpi3\<close> walks the runs from the latest back and stops at the first that is
  not error-free.
\<close>

definition error_free :: "TicketRun \<Rightarrow> bool" where
  "error_free run = (\<not> error_occurred run \<and> status run \<noteq> RUN_FAILED)"

fun count_trailing :: "TicketRun list \<Rightarrow> nat \<Rightarrow> nat" where
  "count_trailing [] consecutive = consecutive"
| "count_trailing (run # rest) consecutive =
     (if error_free run then count_trailing rest (consecutive + 1) else consecutive)"

text \<open>The rows in ascending order of \<^verbatim>\<open>started_at\<close> (rows that tie keep insertion order).\<close>

definition runs_by_start :: "store \<Rightarrow> TicketRun list" where
  "runs_by_start db = sort_key tr_started_at (map snd (ticket_runs db))"

definition compute_kpi3 :: "store \<Rightarrow> POCMetrics \<Rightarrow> POCMetrics" where
  "compute_kpi3 db m =
     (let runs = runs_by_start db;
          consecutive = count_trailing (rev runs) 0
      in m\<lparr> total_runs := length runs,
            total_error_runs := length (filter (\<lambda>r. error_occurred r \<or> status r = RUN_FAILED) runs),
            consecutive_error_free_runs := consecutive,
            kpi3_met := (consecutive \<ge> 10) \<rparr>)"

section \<open>Scenarios\<close>

text \<open>
  A run in which Jira does not know the ticket: \<^verbatim>\<open>_fetch_ticket_via_mcp\<close> raises
  \<^verbatim>\<open>ValueError\<close>, the database works, and the stages after the branch, which this run
  never reaches, return empty dicts.
\<close>

definition idle_stage :: "WorkflowState \<Rightarrow> error + StageResult" where
  "idle_stage s = Inr no_update"

definition ticket_not_found :: env where
  "ticket_not_found = \<lparr>
     jira_fetch = (\<lambda>tid. Inl (ValueError (''Ticket '' @ tid @ '' not found via JQL search''))),
     completeness_threshold = 0.65,
     llm_completeness = (\<lambda>tc. Inl (RuntimeError ''Bedrock timeout'')),
     dry_run = False,
     jira_comment = (\<lambda>tid cr. Inr (Some ''posted'')),
     jira_label = (\<lambda>tid. None),
     repo_scout_node = idle_stage,
     confluence_agent_node = idle_stage,
     planner_node = idle_stage,
     code_proposal_node = idle_stage,
     test_suggestion_node = idle_stage,
     pr_composer_node = idle_stage,
     new_run_id = ''run-1'',
     clock_started_iso = ''2025-01-01T00:00:00+00:00'',
     clock_completed_iso = ''2025-01-01T00:00:05+00:00'',
     clock_create_run = 100,
     clock_mark_queued = 100,
     clock_finalize = 105,
     fromisoformat = (\<lambda>iso. Some 100),
     init_db_fault = None,
     create_run_fault = None,
     mark_queued_fault = None,
     finalize_fault = None \<rparr>"

text \<open>
  A run on a complete ticket in which the repository scout lets an exception escape.
\<close>

definition scout_crashes :: env where
  "scout_crashes = ticket_not_found\<lparr>
     jira_fetch :=
       (\<lambda>tid. Inr \<lparr> tc_ticket_id = tid, title = ''Add user authentication'',
                     description = ''Users should be able to log in.'' \<rparr>),
     llm_completeness :=
       (\<lambda>tc. Inr (Some \<lparr> cr_ticket_id = ''PROJ-1'', decision = COMPLETE,
                           completeness_score = 0.9, jira_comment_posted = False,
                           jira_comment_id = None \<rparr>, ''call-id-1'')),
     repo_scout_node := (\<lambda>s. Inl (RuntimeError ''Event loop is closed'')) \<rparr>"


text \<open>The same run, with the disk failing while \<^verbatim>\<open>finalize_run\<close> commits.\<close>

definition finalize_write_fails :: env where
  "finalize_write_fails =
     ticket_not_found\<lparr> finalize_fault := Some (OperationalError ''disk I/O error'') \<rparr>"

definition empty_store :: store where
  "empty_store = \<lparr> ticket_runs = [], processed_tickets = [], ticket_ground_truth = [] \<rparr>"

text \<open>
  The store of a first run on an empty database after \<^verbatim>\<open>create_run\<close>, and after
  \<^verbatim>\<open>mark_ticket_queued\<close>.
\<close>

definition run_created :: store where
  "run_created = empty_store\<lparr> ticket_runs := [(''run-1'', new_ticket_run ''PROJ-1'' 100)] \<rparr>"

definition run_queued :: store where
  "run_queued = run_created\<lparr> processed_tickets :=
     [(''PROJ-1'', \<lparr> first_seen_at = 100, last_run_id = Some ''run-1'',
                      reprocess_requested = False \<rparr>)] \<rparr>"

text \<open>
  \<^verbatim>\<open>_insert_run\<close> of tests/unit/test_metrics.py: a row with the given status, start time,
  completeness flag and error flag.
\<close>

definition insert_run ::
  "string \<Rightarrow> string \<Rightarrow> RunStatus \<Rightarrow> int \<Rightarrow> bool option \<Rightarrow> bool \<Rightarrow> store \<Rightarrow> store" where
  "insert_run rid tid st started deemed err db =
     db\<lparr> ticket_runs := ticket_runs db @
            [(rid, (new_ticket_run tid started)\<lparr> status := st,
                      ticket_deemed_incomplete := deemed, error_occurred := err \<rparr>)] \<rparr>"

text \<open>Run outcomes in start-time order: failed, ok, ok, ok.\<close>

definition failed_then_three_ok :: store where
  "failed_then_three_ok =
     insert_run ''r3'' ''T-3'' COMPLETED_COMPLETE 4 None False
       (insert_run ''r2'' ''T-2'' COMPLETED_COMPLETE 3 None False
          (insert_run ''r1'' ''T-1'' COMPLETED_COMPLETE 2 None False
             (insert_run ''r0'' ''T-0'' RUN_FAILED 1 None True empty_store)))"

text \<open>
  Two tickets labelled truly incomplete, of which the system flagged one (in two runs),
  and a third ticket flagged by the system but labelled complete.
\<close>

definition two_labels_one_detected :: store where
  "two_labels_one_detected =
     (insert_run ''r3'' ''T-3'' COMPLETED_INCOMPLETE 4 (Some True) False
        (insert_run ''r2'' ''T-1'' COMPLETED_INCOMPLETE 3 (Some True) False
           (insert_run ''r1'' ''T-1'' COMPLETED_INCOMPLETE 2 (Some True) False
              (insert_run ''r0'' ''T-2'' COMPLETED_COMPLETE 1 (Some False) False empty_store))))
     \<lparr> ticket_ground_truth :=
         [(''T-1'', \<lparr> truly_incomplete = True, labeled_by = None, labeled_at = 5,
                      gt_notes = None \<rparr>),
          (''T-2'', \<lparr> truly_incomplete = True, labeled_by = None, labeled_at = 6,
                      gt_notes = None \<rparr>),
          (''T-3'', \<lparr> truly_incomplete = False, labeled_by = None, labeled_at = 7,
                      gt_notes = None \<rparr>)] \<rparr>"

section \<open>Properties of the routing function\<close>

text \<open>
  Claim C3. After the completeness check the routing function looks at \<^verbatim>\<open>should_stop\<close>
  first: when it is true the clarification branch is chosen, also when the ticket was
  judged complete; otherwise a ticket judged complete goes to the repository scout, and
  every other state (judged incomplete, or not judged) goes to the clarification branch.
  This is the successor that the graph takes after \<open>completeness_check\<close>.
\<close>

theorem route_after_completeness_precedence:
  "(should_stop s \<longrightarrow> route_after_completeness s = post_clarification)
   \<and> (\<not> should_stop s \<and> is_complete_ticket s = Some True
        \<longrightarrow> route_after_completeness s = repo_scout)
   \<and> (\<not> should_stop s \<and> is_complete_ticket s \<noteq> Some True
        \<longrightarrow> route_after_completeness s = post_clarification)
   \<and> next_node completeness_check s = Some (route_after_completeness s)"
  by (simp add: route_after_completeness_def)

theorem route_after_completeness_precedence_witness:
  "should_stop ((initial_state ticket_not_found ''PROJ-1'')
       \<lparr> should_stop := True, is_complete_ticket := Some True \<rparr>)
   \<and> route_after_completeness ((initial_state ticket_not_found ''PROJ-1'')
       \<lparr> should_stop := True, is_complete_ticket := Some True \<rparr>) = post_clarification
   \<and> route_after_completeness ((initial_state ticket_not_found ''PROJ-1'')
       \<lparr> is_complete_ticket := Some True \<rparr>) = repo_scout
   \<and> route_after_completeness ((initial_state ticket_not_found ''PROJ-1'')
       \<lparr> is_complete_ticket := Some False \<rparr>) = post_clarification
   \<and> route_after_completeness (initial_state ticket_not_found ''PROJ-1'') = post_clarification"
  using route_after_completeness_precedence
          [of "(initial_state ticket_not_found ''PROJ-1'')
                 \<lparr> should_stop := True, is_complete_ticket := Some True \<rparr>"]
        route_after_completeness_precedence
          [of "(initial_state ticket_not_found ''PROJ-1'') \<lparr> is_complete_ticket := Some True \<rparr>"]
        route_after_completeness_precedence
          [of "(initial_state ticket_not_found ''PROJ-1'') \<lparr> is_complete_ticket := Some False \<rparr>"]
        route_after_completeness_precedence [of "initial_state ticket_not_found ''PROJ-1''"]
  by (simp add: initial_state_def)

section \<open>Properties of the repository\<close>

lemma get_db_session_None: "get_db_session None body = body"
  by (simp add: get_db_session_def)

lemma mark_ticket_queued_marker:
  "\<exists>db' row. mark_ticket_queued None db tid rid now = Inr db'
      \<and> map_of (processed_tickets db') tid = Some row
      \<and> last_run_id row = Some rid \<and> \<not> reprocess_requested row"
  by (cases "map_of (processed_tickets db) tid")
     (simp_all add: mark_ticket_queued_def get_db_session_None update_conv' map_add_def)

text \<open>
  Claim C6. With a working database, queueing the same ticket twice, for run \<open>r1\<close> and
  then for run \<open>r2\<close>, succeeds both times from any store, and afterwards the ticket counts
  as processed, its marker names \<open>r2\<close> as the last run, and the reprocess flag is off
  (whatever it was before).
\<close>

theorem mark_ticket_queued_twice:
  "\<exists>db1 db2.
      mark_ticket_queued None db tid r1 t1 = Inr db1
    \<and> mark_ticket_queued None db1 tid r2 t2 = Inr db2
    \<and> is_ticket_processed None db2 tid = Inr True
    \<and> map_option last_run_id (map_of (processed_tickets db2) tid) = Some (Some r2)
    \<and> map_option reprocess_requested (map_of (processed_tickets db2) tid) = Some False"
proof -
  obtain db1 where first: "mark_ticket_queued None db tid r1 t1 = Inr db1"
    using mark_ticket_queued_marker [of db tid r1 t1] by blast
  obtain db2 row where second: "mark_ticket_queued None db1 tid r2 t2 = Inr db2"
    and row: "map_of (processed_tickets db2) tid = Some row"
      "last_run_id row = Some r2" "\<not> reprocess_requested row"
    using mark_ticket_queued_marker [of db1 tid r2 t2] by blast
  have "is_ticket_processed None db2 tid = Inr True"
    using row by (simp add: is_ticket_processed_def get_db_session_None)
  with first second row show ?thesis by simp
qed

text \<open>
  Claim C10. When no row of \<^verbatim>\<open>ticket_runs\<close> has the given run id and the database works,
  \<^verbatim>\<open>update_run\<close> returns without an exception and leaves the store as it was, with no row
  added; so does \<^verbatim>\<open>set_pr_outcome\<close>, and so does \<^verbatim>\<open>finalize_run\<close> on a state whose
  \<^verbatim>\<open>started_at\<close> is empty or a timestamp that parses (the state type declares it an
  ISO-8601 timestamp; parsing precedes the update).
\<close>

theorem update_run_absent_is_noop:
  assumes "map_of (ticket_runs db) rid = None"
  shows "update_run None db rid kwargs = Inr db
       \<and> set_pr_outcome None db rid outcome = Inr db
       \<and> (started_at state = [] \<or> parse (started_at state) \<noteq> None
            \<longrightarrow> finalize_run None parse now db rid state = Inr db)"
  using assms
  by (auto simp: update_run_def set_pr_outcome_def finalize_run_def get_db_session_None Let_def)

theorem update_run_absent_is_noop_witness:
  "map_of (ticket_runs failed_then_three_ok) ''r9'' = None
   \<and> update_run None failed_then_three_ok ''r9'' [Set_status RUN_FAILED] = Inr failed_then_three_ok
   \<and> set_pr_outcome None failed_then_three_ok ''r9'' MERGED = Inr failed_then_three_ok
   \<and> fromisoformat ticket_not_found (started_at (initial_state ticket_not_found ''PROJ-1''))
       \<noteq> None
   \<and> finalize_run None (fromisoformat ticket_not_found) 105 failed_then_three_ok ''r9''
       (initial_state ticket_not_found ''PROJ-1'') = Inr failed_then_three_ok"
proof -
  have absent: "map_of (ticket_runs failed_then_three_ok) ''r9'' = None"
    by (simp add: failed_then_three_ok_def insert_run_def empty_store_def)
  have parses:
    "fromisoformat ticket_not_found (started_at (initial_state ticket_not_found ''PROJ-1''))
       \<noteq> None"
    by (simp add: ticket_not_found_def)
  show ?thesis
    using absent parses
      update_run_absent_is_noop [OF absent, of "[Set_status RUN_FAILED]" MERGED
        "initial_state ticket_not_found ''PROJ-1''" "fromisoformat ticket_not_found" 105]
    by simp
qed

text \<open>
  Claim C4. For a run that has a row, with a working database and a state whose
  \<^verbatim>\<open>started_at\<close> is empty or parses, \<^verbatim>\<open>finalize_run\<close> returns and the row's status is:
  failed when the state has any error; otherwise completed-incomplete when
  \<^verbatim>\<open>is_complete_ticket\<close> is \<^verbatim>\<open>False\<close>; otherwise (complete, or never judged)
  completed-complete.
\<close>

theorem finalize_run_status:
  assumes "map_of (ticket_runs db) rid = Some run"
    and "started_at state = [] \<or> parse (started_at state) \<noteq> None"
  shows "\<exists>db'. finalize_run None parse now db rid state = Inr db'
           \<and> map_option status (map_of (ticket_runs db') rid) =
               Some (if errors state \<noteq> [] then RUN_FAILED
                     else if is_complete_ticket state = Some False then COMPLETED_INCOMPLETE
                     else COMPLETED_COMPLETE)"
  using assms
  by (auto simp: finalize_run_def update_run_def get_db_session_None Let_def update_conv')

theorem finalize_run_status_witness:
  "map_of (ticket_runs failed_then_three_ok) ''r1''
     = Some (new_ticket_run ''T-1'' 2\<lparr> status := COMPLETED_COMPLETE \<rparr>)
   \<and> started_at ((initial_state ticket_not_found ''T-1'')\<lparr> is_complete_ticket := Some False \<rparr>)
       \<noteq> []
   \<and> fromisoformat ticket_not_found
        (started_at ((initial_state ticket_not_found ''T-1'')
                       \<lparr> is_complete_ticket := Some False \<rparr>)) \<noteq> None
   \<and> map_option status
        (map_of (ticket_runs (projr (finalize_run None (fromisoformat ticket_not_found) 105
            failed_then_three_ok ''r1''
            ((initial_state ticket_not_found ''T-1'')\<lparr> is_complete_ticket := Some False \<rparr>))))
         ''r1'')
       = Some COMPLETED_INCOMPLETE"
proof -
  have row: "map_of (ticket_runs failed_then_three_ok) ''r1''
     = Some (new_ticket_run ''T-1'' 2\<lparr> status := COMPLETED_COMPLETE \<rparr>)"
    by (simp add: failed_then_three_ok_def insert_run_def empty_store_def new_ticket_run_def)
  have parses: "started_at ((initial_state ticket_not_found ''T-1'')
                    \<lparr> is_complete_ticket := Some False \<rparr>) = []
     \<or> fromisoformat ticket_not_found
        (started_at ((initial_state ticket_not_found ''T-1'')
                       \<lparr> is_complete_ticket := Some False \<rparr>)) \<noteq> None"
    by (simp add: ticket_not_found_def)
  have filled: "started_at ((initial_state ticket_not_found ''T-1'')
                    \<lparr> is_complete_ticket := Some False \<rparr>) \<noteq> []"
    by (simp add: initial_state_def ticket_not_found_def)
  have errs: "errors ((initial_state ticket_not_found ''T-1'')
                    \<lparr> is_complete_ticket := Some False \<rparr>) = []"
    by (simp add: initial_state_def)
  show ?thesis
    using row filled errs
      finalize_run_status [where db = failed_then_three_ok and rid = "''r1''"
        and run = "new_ticket_run ''T-1'' 2\<lparr> status := COMPLETED_COMPLETE \<rparr>"
        and state = "(initial_state ticket_not_found ''T-1'')\<lparr> is_complete_ticket := Some False \<rparr>"
        and parse = "fromisoformat ticket_not_found" and now = 105]
    by (auto simp: ticket_not_found_def)
qed

section \<open>Properties of the executor and of the run entry point\<close>

text \<open>Every path of the graph ends in \<open>end_workflow\<close>, which writes the phase COMPLETED.\<close>

lemma execute_ends_completed:
  "execute e n s = Inr s' \<Longrightarrow> current_phase s' = COMPLETED"
proof (induction e n s rule: execute.induct)
  case (1 e n s)
  from "1.prems" obtain u where u: "run_node e n s = Inr u"
    by (subst (asm) execute.simps) (auto split: sum.splits)
  show ?case
  proof (cases "next_node n (merge_state s u)")
    case None
    then have n: "n = end_workflow" by (cases n) auto
    from "1.prems" None u have "s' = merge_state s u"
      by (subst (asm) execute.simps) (simp add: Let_def)
    with n u show ?thesis
      by (auto simp: merge_state_def end_workflow_node_def overwrite_def)
  next
    case (Some n')
    from "1.prems" Some u have "execute e n' (merge_state s u) = Inr s'"
      by (subst (asm) execute.simps) (simp add: Let_def)
    with "1.IH" [OF u refl Some] show ?thesis by simp
  qed
qed

lemma invoke_graph_terminal:
  "(case execute e fetch_ticket (initial_state e tid) of
      Inl exc \<Rightarrow> current_phase (invoke_graph e tid) = FAILED
                 \<and> errors (invoke_graph e tid) = [str_exc exc]
    | Inr s \<Rightarrow> invoke_graph e tid = s \<and> current_phase (invoke_graph e tid) = COMPLETED)"
  by (auto simp: invoke_graph_def split: sum.splits dest: execute_ends_completed)

lemma run_workflow_started:
  assumes "init_db_fault e = None"
    and "create_run (create_run_fault e) db (new_run_id e) tid (clock_create_run e) = Inr db1"
    and "mark_ticket_queued (mark_queued_fault e) db1 tid (new_run_id e) (clock_mark_queued e)
           = Inr db2"
  shows "\<exists>db'. run_workflow e db tid = Inr (invoke_graph e tid, db')"
  using assms by (simp add: run_workflow_def Let_def split: sum.splits)

text \<open>The run on an empty database in the two scenarios.\<close>

lemma first_run_starts:
  "create_run None empty_store ''run-1'' ''PROJ-1'' 100 = Inr run_created"
  "mark_ticket_queued None run_created ''PROJ-1'' ''run-1'' 100 = Inr run_queued"
  by (simp_all add: create_run_def mark_ticket_queued_def get_db_session_None
        empty_store_def run_created_def run_queued_def)

lemma scenario_settings:
  "init_db_fault ticket_not_found = None" "create_run_fault ticket_not_found = None"
  "mark_queued_fault ticket_not_found = None" "new_run_id ticket_not_found = ''run-1''"
  "clock_create_run ticket_not_found = 100" "clock_mark_queued ticket_not_found = 100"
  "init_db_fault scout_crashes = None" "create_run_fault scout_crashes = None"
  "mark_queued_fault scout_crashes = None" "new_run_id scout_crashes = ''run-1''"
  "clock_create_run scout_crashes = 100" "clock_mark_queued scout_crashes = 100"
  by (simp_all add: ticket_not_found_def scout_crashes_def)

lemma ticket_not_found_fetch:
  "jira_fetch ticket_not_found ''PROJ-1''
     = Inl (ValueError ''Ticket PROJ-1 not found via JQL search'')"
  by (simp add: ticket_not_found_def)

lemma fetch_failure_path:
  assumes "jira_fetch e tid = Inl exc"
  shows "execute e fetch_ticket (initial_state e tid) =
           Inr ((initial_state e tid)
                  \<lparr> current_phase := COMPLETED,
                    should_stop := True,
                    errors := [''ticket_fetcher: '' @ str_exc exc,
                               ''completeness_agent: ticket_context is None'',
                               ''post_clarification: completeness_result is None''],
                    completed_at := Some (clock_completed_iso e) \<rparr>)"
  using assms
  by (simp add: execute.simps [of e fetch_ticket] execute.simps [of e completeness_check]
        execute.simps [of e post_clarification] execute.simps [of e end_workflow]
        fetch_ticket_node_def completeness_check_node_def post_clarification_node_def
        end_workflow_node_def failed_result_def no_update_def merge_state_def overwrite_def
        route_after_completeness_def initial_state_def)

lemma scout_crashes_escapes:
  "execute scout_crashes fetch_ticket (initial_state scout_crashes ''PROJ-1'')
      = Inl (RuntimeError ''Event loop is closed'')"
  by (simp add: execute.simps [of _ fetch_ticket]
        execute.simps [of _ completeness_check]
        execute.simps [of _ repo_scout]
        fetch_ticket_node_def completeness_check_node_def
        no_update_def merge_state_def overwrite_def
        route_after_completeness_def initial_state_def scout_crashes_def ticket_not_found_def)

text \<open>
  Claim C2, amended. \<^verbatim>\<open>run_workflow\<close> guards the invocation of the graph and the call
  of \<^verbatim>\<open>finalize_run\<close>, not the three steps before them. When \<^verbatim>\<open>init_db\<close>,
  \<^verbatim>\<open>create_run\<close> and \<^verbatim>\<open>mark_ticket_queued\<close> succeed, the call returns a state whose
  phase is COMPLETED or FAILED, together with its list of errors, whatever the stages and
  the finalization do: when an exception escapes the graph the phase is FAILED and the
  errors are the text of that exception, otherwise the state is the one the graph
  returned and its phase is COMPLETED.
\<close>

theorem run_workflow_returns_terminal_state:
  assumes "init_db_fault e = None"
    and "create_run (create_run_fault e) db (new_run_id e) tid (clock_create_run e) = Inr db1"
    and "mark_ticket_queued (mark_queued_fault e) db1 tid (new_run_id e) (clock_mark_queued e)
           = Inr db2"
  shows "\<exists>final db'. run_workflow e db tid = Inr (final, db')
           \<and> (current_phase final = COMPLETED \<or> current_phase final = FAILED)
           \<and> (case execute e fetch_ticket (initial_state e tid) of
                 Inl exc \<Rightarrow> current_phase final = FAILED \<and> errors final = [str_exc exc]
               | Inr s \<Rightarrow> final = s \<and> current_phase final = COMPLETED)"
proof -
  have "\<exists>db'. run_workflow e db tid = Inr (invoke_graph e tid, db')"
    using assms by (simp add: run_workflow_def Let_def split: sum.splits)
  moreover have "current_phase (invoke_graph e tid) = COMPLETED
      \<or> current_phase (invoke_graph e tid) = FAILED"
    using invoke_graph_terminal [of e tid] by (auto split: sum.splits)
  ultimately show ?thesis
    using invoke_graph_terminal [of e tid] by blast
qed

theorem run_workflow_returns_terminal_state_witness:
  "init_db_fault ticket_not_found = None
   \<and> create_run (create_run_fault ticket_not_found) empty_store (new_run_id ticket_not_found)
        ''PROJ-1'' (clock_create_run ticket_not_found) = Inr run_created
   \<and> mark_ticket_queued (mark_queued_fault ticket_not_found) run_created ''PROJ-1''
        (new_run_id ticket_not_found) (clock_mark_queued ticket_not_found) = Inr run_queued
   \<and> \<not> isl (run_workflow ticket_not_found empty_store ''PROJ-1'')
   \<and> current_phase (fst (projr (run_workflow ticket_not_found empty_store ''PROJ-1'')))
       = COMPLETED
   \<and> init_db_fault scout_crashes = None
   \<and> create_run (create_run_fault scout_crashes) empty_store (new_run_id scout_crashes)
        ''PROJ-1'' (clock_create_run scout_crashes) = Inr run_created
   \<and> mark_ticket_queued (mark_queued_fault scout_crashes) run_created ''PROJ-1''
        (new_run_id scout_crashes) (clock_mark_queued scout_crashes) = Inr run_queued
   \<and> \<not> isl (run_workflow scout_crashes empty_store ''PROJ-1'')
   \<and> current_phase (fst (projr (run_workflow scout_crashes empty_store ''PROJ-1''))) = FAILED
   \<and> errors (fst (projr (run_workflow scout_crashes empty_store ''PROJ-1'')))
       = [''Event loop is closed'']"
proof -
  have a1: "init_db_fault ticket_not_found = None"
    and a2: "init_db_fault scout_crashes = None"
    by (simp_all add: scenario_settings)
  have b1: "create_run (create_run_fault ticket_not_found) empty_store
       (new_run_id ticket_not_found) ''PROJ-1'' (clock_create_run ticket_not_found)
       = Inr run_created"
    and b2: "create_run (create_run_fault scout_crashes) empty_store
       (new_run_id scout_crashes) ''PROJ-1'' (clock_create_run scout_crashes)
       = Inr run_created"
    by (simp_all add: scenario_settings first_run_starts)
  have c1: "mark_ticket_queued (mark_queued_fault ticket_not_found) run_created ''PROJ-1''
        (new_run_id ticket_not_found) (clock_mark_queued ticket_not_found) = Inr run_queued"
    and c2: "mark_ticket_queued (mark_queued_fault scout_crashes) run_created ''PROJ-1''
        (new_run_id scout_crashes) (clock_mark_queued scout_crashes) = Inr run_queued"
    by (simp_all add: scenario_settings first_run_starts)
  note ok = fetch_failure_path [OF ticket_not_found_fetch]
  show ?thesis
    using a1 a2 b1 b2 c1 c2
      run_workflow_returns_terminal_state [OF a1 b1 c1]
      run_workflow_returns_terminal_state [OF a2 b2 c2]
    by (auto simp: scout_crashes_escapes ok)
qed

text \<open>
  The unguarded steps: when the database is locked while \<^verbatim>\<open>create_run\<close> commits, the
  exception leaves \<^verbatim>\<open>run_workflow\<close> and no state is returned.
\<close>

theorem run_workflow_counterexample:
  "run_workflow
     (ticket_not_found\<lparr> create_run_fault := Some (OperationalError ''database is locked'') \<rparr>)
     empty_store ''PROJ-1'' = Inl (OperationalError ''database is locked'')"
  by (simp add: run_workflow_def create_run_def get_db_session_def ticket_not_found_def)

text \<open>The state that a run computes does not depend on how the finalization goes.\<close>

lemma run_node_finalize_fault [simp]:
  "run_node (e\<lparr> finalize_fault := f \<rparr>) n s = run_node e n s"
  by (cases n)
     (simp_all add: fetch_ticket_node_def completeness_check_node_def
        post_clarification_node_def end_workflow_node_def
        cong: option.case_cong sum.case_cong prod.case_cong if_cong)

lemma execute_finalize_fault: "execute (e\<lparr> finalize_fault := f \<rparr>) n s = execute e n s"
proof (induction e n s rule: execute.induct)
  case (1 e n s)
  show ?case
    by (subst execute.simps, subst (2) execute.simps)
       (auto simp: Let_def "1.IH" split: sum.splits option.splits)
qed

lemma invoke_graph_finalize_fault:
  "invoke_graph (e\<lparr> finalize_fault := f \<rparr>) tid = invoke_graph e tid"
  by (simp add: invoke_graph_def execute_finalize_fault initial_state_def
        cong: sum.case_cong)

text \<open>
  Claim C9. When the run has started and \<^verbatim>\<open>finalize_run\<close> raises, \<^verbatim>\<open>run_workflow\<close>
  still returns, and what it returns is the final state computed before the finalization,
  the same state that the call returns when the database does not fail; the store stays
  as it was before the finalization.
\<close>

theorem finalize_failure_is_not_fatal:
  assumes "init_db_fault e = None"
    and "create_run (create_run_fault e) db (new_run_id e) tid (clock_create_run e) = Inr db1"
    and "mark_ticket_queued (mark_queued_fault e) db1 tid (new_run_id e) (clock_mark_queued e)
           = Inr db2"
    and "finalize_run (finalize_fault e) (fromisoformat e) (clock_finalize e) db2 (new_run_id e)
           (invoke_graph e tid) = Inl exc"
  shows "run_workflow e db tid = Inr (invoke_graph e tid, db2)
       \<and> (\<exists>db3. run_workflow (e\<lparr> finalize_fault := None \<rparr>) db tid
                  = Inr (invoke_graph e tid, db3))"
  using assms
  by (auto simp: run_workflow_def Let_def invoke_graph_finalize_fault split: sum.splits)

theorem finalize_failure_is_not_fatal_witness:
  "init_db_fault finalize_write_fails = None
   \<and> create_run (create_run_fault finalize_write_fails) empty_store
        (new_run_id finalize_write_fails) ''PROJ-1'' (clock_create_run finalize_write_fails)
       = Inr run_created
   \<and> mark_ticket_queued (mark_queued_fault finalize_write_fails) run_created ''PROJ-1''
        (new_run_id finalize_write_fails) (clock_mark_queued finalize_write_fails)
       = Inr run_queued
   \<and> finalize_run (finalize_fault finalize_write_fails) (fromisoformat finalize_write_fails)
        (clock_finalize finalize_write_fails) run_queued (new_run_id finalize_write_fails)
        (invoke_graph finalize_write_fails ''PROJ-1'') = Inl (OperationalError ''disk I/O error'')
   \<and> run_workflow finalize_write_fails empty_store ''PROJ-1''
       = Inr (invoke_graph finalize_write_fails ''PROJ-1'', run_queued)"
proof -
  have a: "init_db_fault finalize_write_fails = None"
    by (simp add: finalize_write_fails_def ticket_not_found_def)
  have b: "create_run (create_run_fault finalize_write_fails) empty_store
        (new_run_id finalize_write_fails) ''PROJ-1'' (clock_create_run finalize_write_fails)
       = Inr run_created"
    by (simp add: finalize_write_fails_def scenario_settings first_run_starts)
  have c: "mark_ticket_queued (mark_queued_fault finalize_write_fails) run_created ''PROJ-1''
        (new_run_id finalize_write_fails) (clock_mark_queued finalize_write_fails)
       = Inr run_queued"
    by (simp add: finalize_write_fails_def scenario_settings first_run_starts)
  have d: "finalize_run (finalize_fault finalize_write_fails)
        (fromisoformat finalize_write_fails) (clock_finalize finalize_write_fails) run_queued
        (new_run_id finalize_write_fails) (invoke_graph finalize_write_fails ''PROJ-1'')
       = Inl (OperationalError ''disk I/O error'')"
    by (simp add: finalize_run_def update_run_def get_db_session_def Let_def
          finalize_write_fails_def ticket_not_found_def)
  show ?thesis
    using a b c d finalize_failure_is_not_fatal [OF a b c d] by simp
qed

text \<open>
  Claim C1, amended. In a run whose ticket fetch fails, the two stages that follow find
  their input missing and each adds an error of its own, and the terminal node runs last.
  The state that \<^verbatim>\<open>run_workflow\<close> returns has \<^verbatim>\<open>should_stop\<close> set, has exactly three
  errors, of which the first, and only the first, carries the prefix of the ticket
  fetcher, followed by the one of the completeness check and the one of the
  clarification stage, and has none of the result slots of a later stage filled.
\<close>

theorem first_stage_failure_final_state:
  assumes "jira_fetch e tid = Inl exc"
    and "run_workflow e db tid = Inr (final, db')"
  shows "should_stop final
       \<and> errors final = [''ticket_fetcher: '' @ str_exc exc,
                          ''completeness_agent: ticket_context is None'',
                          ''post_clarification: completeness_result is None'']
       \<and> completeness_result final = None \<and> repo_context final = None
       \<and> confluence_context final = None \<and> implementation_plan final = None
       \<and> code_proposal final = None \<and> test_suggestions final = None
       \<and> pr_result final = None"
proof -
  from assms(2) have "final = invoke_graph e tid"
    by (auto simp: run_workflow_def Let_def split: option.splits sum.splits)
  also have "invoke_graph e tid =
      (initial_state e tid)
        \<lparr> current_phase := COMPLETED,
          should_stop := True,
          errors := [''ticket_fetcher: '' @ str_exc exc,
                     ''completeness_agent: ticket_context is None'',
                     ''post_clarification: completeness_result is None''],
          completed_at := Some (clock_completed_iso e) \<rparr>"
    by (simp add: invoke_graph_def fetch_failure_path [OF assms(1)])
  finally show ?thesis
    by (simp add: initial_state_def)
qed

theorem first_stage_failure_final_state_witness:
  "jira_fetch ticket_not_found ''PROJ-1''
     = Inl (ValueError ''Ticket PROJ-1 not found via JQL search'')
   \<and> run_workflow ticket_not_found empty_store ''PROJ-1''
       = Inr (fst (projr (run_workflow ticket_not_found empty_store ''PROJ-1'')),
              snd (projr (run_workflow ticket_not_found empty_store ''PROJ-1'')))
   \<and> should_stop (fst (projr (run_workflow ticket_not_found empty_store ''PROJ-1'')))
   \<and> errors (fst (projr (run_workflow ticket_not_found empty_store ''PROJ-1'')))
       = [''ticket_fetcher: Ticket PROJ-1 not found via JQL search'',
          ''completeness_agent: ticket_context is None'',
          ''post_clarification: completeness_result is None'']
   \<and> pr_result (fst (projr (run_workflow ticket_not_found empty_store ''PROJ-1''))) = None"
proof -
  obtain db' where "run_workflow ticket_not_found empty_store ''PROJ-1''
      = Inr (invoke_graph ticket_not_found ''PROJ-1'', db')"
    using run_workflow_started [where e = ticket_not_found and db = empty_store
        and tid = "''PROJ-1''" and ?db1.0 = run_created and ?db2.0 = run_queued]
    by (auto simp: scenario_settings first_run_starts)
  then have returned: "run_workflow ticket_not_found empty_store ''PROJ-1''
       = Inr (fst (projr (run_workflow ticket_not_found empty_store ''PROJ-1'')),
              snd (projr (run_workflow ticket_not_found empty_store ''PROJ-1'')))"
    by simp
  show ?thesis
    using ticket_not_found_fetch returned
      first_stage_failure_final_state [OF ticket_not_found_fetch returned]
    by simp
qed

text \<open>
  The run of the scenario ends with the phase COMPLETED, written by the terminal node
  over the FAILED of the stages, and with three errors, not one.
\<close>

theorem first_stage_failure_counterexample:
  "jira_fetch ticket_not_found ''PROJ-1''
     = Inl (ValueError ''Ticket PROJ-1 not found via JQL search'')
   \<and> \<not> isl (run_workflow ticket_not_found empty_store ''PROJ-1'')
   \<and> current_phase (fst (projr (run_workflow ticket_not_found empty_store ''PROJ-1'')))
       = COMPLETED
   \<and> current_phase (fst (projr (run_workflow ticket_not_found empty_store ''PROJ-1'')))
       \<noteq> FAILED
   \<and> length (errors (fst (projr (run_workflow ticket_not_found empty_store ''PROJ-1'')))) = 3"
proof -
  obtain db' where "run_workflow ticket_not_found empty_store ''PROJ-1''
      = Inr (invoke_graph ticket_not_found ''PROJ-1'', db')"
    using run_workflow_started [where e = ticket_not_found and db = empty_store
        and tid = "''PROJ-1''" and ?db1.0 = run_created and ?db2.0 = run_queued]
    by (auto simp: scenario_settings first_run_starts)
  then show ?thesis
    using ticket_not_found_fetch
    by (simp add: invoke_graph_def fetch_failure_path [OF ticket_not_found_fetch])
qed

section \<open>Properties of the reducer\<close>
















section \<open>Properties of the metrics\<close>

lemma count_trailing_takeWhile:
  "count_trailing runs c = c + length (takeWhile error_free runs)"
  by (induction runs arbitrary: c) simp_all

lemma suffix_all_takeWhile:
  "\<forall>x\<in>set (drop (length xs - length (takeWhile P (rev xs))) xs). P x"
proof -
  let ?k = "length (takeWhile P (rev xs))"
  have "?k \<le> length xs"
    using length_takeWhile_le [of P "rev xs"] by simp
  then have "rev (drop (length xs - ?k) xs) = take ?k (rev xs)"
    by (simp add: rev_drop)
  also have "\<dots> = takeWhile P (rev xs)"
    by (rule takeWhile_eq_take [symmetric])
  finally have "set (drop (length xs - ?k) xs) = set (takeWhile P (rev xs))"
    by (metis set_rev)
  then show ?thesis
    by (auto dest: set_takeWhileD)
qed

lemma suffix_all_bound:
  assumes "n \<le> length xs" and "\<forall>x\<in>set (drop (length xs - n) xs). P x"
  shows "n \<le> length (takeWhile P (rev xs))"
proof -
  have "rev (drop (length xs - n) xs) = take n (rev xs)"
    using assms(1) by (simp add: rev_drop)
  then have "set (take n (rev xs)) = set (drop (length xs - n) xs)"
    by (metis set_rev)
  with assms(2) have all: "\<forall>x\<in>set (take n (rev xs)). P x" by simp
  have "takeWhile P (rev xs) = takeWhile P (take n (rev xs) @ drop n (rev xs))"
    by simp
  also have "\<dots> = take n (rev xs) @ takeWhile P (drop n (rev xs))"
    using all by (simp only: takeWhile_append2)
  finally show ?thesis
    using assms(1) by simp
qed

text \<open>
  Claim C7. With the runs in ascending order of their start time, the third indicator is
  the length of the longest suffix of error-free runs: the last so many runs are all
  error-free, and no longer suffix is. A run is error-free when it has no recorded
  error and its status is not failed. The indicator is met exactly when that length is
  at least 10, and for the outcomes failed, ok, ok, ok it is 3.
\<close>

theorem kpi3_trailing_error_free_streak:
  "consecutive_error_free_runs (compute_kpi3 db m) \<le> length (runs_by_start db)
   \<and> (\<forall>r\<in>set (drop (length (runs_by_start db)
                        - consecutive_error_free_runs (compute_kpi3 db m))
                     (runs_by_start db)). error_free r)
   \<and> (\<forall>n\<le>length (runs_by_start db).
         (\<forall>r\<in>set (drop (length (runs_by_start db) - n) (runs_by_start db)). error_free r)
         \<longrightarrow> n \<le> consecutive_error_free_runs (compute_kpi3 db m))
   \<and> sorted (map tr_started_at (runs_by_start db))
   \<and> set (runs_by_start db) = snd ` set (ticket_runs db)
   \<and> length (runs_by_start db) = length (ticket_runs db)
   \<and> kpi3_met (compute_kpi3 db m) = (10 \<le> consecutive_error_free_runs (compute_kpi3 db m))
   \<and> map status (runs_by_start failed_then_three_ok)
       = [RUN_FAILED, COMPLETED_COMPLETE, COMPLETED_COMPLETE, COMPLETED_COMPLETE]
   \<and> consecutive_error_free_runs (compute_kpi3 failed_then_three_ok m) = 3"
proof -
  have k: "consecutive_error_free_runs (compute_kpi3 db m)
      = length (takeWhile error_free (rev (runs_by_start db)))"
    by (simp add: compute_kpi3_def Let_def count_trailing_takeWhile)
  have le: "consecutive_error_free_runs (compute_kpi3 db m) \<le> length (runs_by_start db)"
    unfolding k using length_takeWhile_le [of error_free "rev (runs_by_start db)"] by simp
  have suffix: "\<forall>r\<in>set (drop (length (runs_by_start db)
                        - consecutive_error_free_runs (compute_kpi3 db m))
                     (runs_by_start db)). error_free r"
    unfolding k by (rule suffix_all_takeWhile)
  have longest: "\<forall>n\<le>length (runs_by_start db).
         (\<forall>r\<in>set (drop (length (runs_by_start db) - n) (runs_by_start db)). error_free r)
         \<longrightarrow> n \<le> consecutive_error_free_runs (compute_kpi3 db m)"
    unfolding k by (blast intro: suffix_all_bound)
  have order: "sorted (map tr_started_at (runs_by_start db))"
    by (simp add: runs_by_start_def)
  have rows: "set (runs_by_start db) = snd ` set (ticket_runs db)"
    "length (runs_by_start db) = length (ticket_runs db)"
    by (simp_all add: runs_by_start_def)
  have met: "kpi3_met (compute_kpi3 db m)
      = (10 \<le> consecutive_error_free_runs (compute_kpi3 db m))"
    by (simp add: compute_kpi3_def Let_def)
  have scenario_rows: "map status (runs_by_start failed_then_three_ok)
       = [RUN_FAILED, COMPLETED_COMPLETE, COMPLETED_COMPLETE, COMPLETED_COMPLETE]"
    by (simp add: runs_by_start_def failed_then_three_ok_def insert_run_def empty_store_def
          new_ticket_run_def)
  have scenario: "consecutive_error_free_runs (compute_kpi3 failed_then_three_ok m) = 3"
    by (simp add: compute_kpi3_def Let_def runs_by_start_def failed_then_three_ok_def
          insert_run_def empty_store_def new_ticket_run_def error_free_def)
  from le suffix longest order rows met scenario_rows scenario show ?thesis
    by blast
qed

theorem kpi3_trailing_error_free_streak_witness:
  "3 \<le> length (runs_by_start failed_then_three_ok)
   \<and> list_all error_free (drop (length (runs_by_start failed_then_three_ok) - 3)
                    (runs_by_start failed_then_three_ok))
   \<and> consecutive_error_free_runs (compute_kpi3 failed_then_three_ok new_metrics) = 3
   \<and> \<not> kpi3_met (compute_kpi3 failed_then_three_ok new_metrics)"
  using kpi3_trailing_error_free_streak [of failed_then_three_ok new_metrics]
  by (simp add: list_all_iff)

lemma set_true_positive_tickets:
  "set (true_positive_tickets db) =
     {t. (\<exists>r\<in>set (ticket_runs db). tr_ticket_id (snd r) = t
             \<and> ticket_deemed_incomplete (snd r) = Some True)
         \<and> (\<exists>g\<in>set (ticket_ground_truth db). fst g = t \<and> truly_incomplete (snd g))}"
proof (intro set_eqI iffI)
  fix t
  assume "t \<in> set (true_positive_tickets db)"
  then obtain r g where "r \<in> set (ticket_runs db)" "g \<in> set (ticket_ground_truth db)"
    "tr_ticket_id (snd r) = fst g" "ticket_deemed_incomplete (snd r) = Some True"
    "truly_incomplete (snd g)" "t = tr_ticket_id (snd r)"
    by (auto simp: true_positive_tickets_def split: if_splits)
  then show "t \<in> {t. (\<exists>r\<in>set (ticket_runs db). tr_ticket_id (snd r) = t
             \<and> ticket_deemed_incomplete (snd r) = Some True)
         \<and> (\<exists>g\<in>set (ticket_ground_truth db). fst g = t \<and> truly_incomplete (snd g))}"
    by auto
next
  fix t
  assume "t \<in> {t. (\<exists>r\<in>set (ticket_runs db). tr_ticket_id (snd r) = t
             \<and> ticket_deemed_incomplete (snd r) = Some True)
         \<and> (\<exists>g\<in>set (ticket_ground_truth db). fst g = t \<and> truly_incomplete (snd g))}"
  then obtain r g where "r \<in> set (ticket_runs db)" "g \<in> set (ticket_ground_truth db)"
    "tr_ticket_id (snd r) = t" "ticket_deemed_incomplete (snd r) = Some True"
    "fst g = t" "truly_incomplete (snd g)"
    by auto
  then show "t \<in> set (true_positive_tickets db)"
    by (force simp: true_positive_tickets_def)
qed

text \<open>
  Claim C8. The computation of the second indicator has no failing step. With no
  ground-truth label at all, and more generally with no label saying truly incomplete,
  the detection rate is 0 and the note is not empty. With at least one such label the
  rate is the number of true positives, the tickets that have a run flagged incomplete
  and a label saying truly incomplete, each ticket counted once, divided by the number
  of labels saying truly incomplete.
\<close>

theorem kpi2_detection_rate:
  "(ticket_ground_truth db = []
      \<longrightarrow> incomplete_detection_rate (compute_kpi2 db m) = 0
          \<and> kpi2_note (compute_kpi2 db m) \<noteq> [])
   \<and> ((\<forall>g\<in>set (ticket_ground_truth db). \<not> truly_incomplete (snd g))
      \<longrightarrow> incomplete_detection_rate (compute_kpi2 db m) = 0
          \<and> kpi2_note (compute_kpi2 db m) \<noteq> [])
   \<and> ((\<exists>g\<in>set (ticket_ground_truth db). truly_incomplete (snd g))
      \<longrightarrow> incomplete_detection_rate (compute_kpi2 db m)
            = real (card {t. (\<exists>r\<in>set (ticket_runs db). tr_ticket_id (snd r) = t
                                \<and> ticket_deemed_incomplete (snd r) = Some True)
                            \<and> (\<exists>g\<in>set (ticket_ground_truth db). fst g = t
                                  \<and> truly_incomplete (snd g))})
              / real (length (filter (\<lambda>g. truly_incomplete (snd g)) (ticket_ground_truth db)))
          \<and> true_positive_detections (compute_kpi2 db m)
            = card {t. (\<exists>r\<in>set (ticket_runs db). tr_ticket_id (snd r) = t
                                \<and> ticket_deemed_incomplete (snd r) = Some True)
                            \<and> (\<exists>g\<in>set (ticket_ground_truth db). fst g = t
                                  \<and> truly_incomplete (snd g))})
   \<and> total_ground_truth_incomplete (compute_kpi2 db m)
       = length (filter (\<lambda>g. truly_incomplete (snd g)) (ticket_ground_truth db))"
proof -
  let ?labels = "filter (\<lambda>g. truly_incomplete (snd g)) (ticket_ground_truth db)"
  have tp: "length (remdups (true_positive_tickets db))
      = card {t. (\<exists>r\<in>set (ticket_runs db). tr_ticket_id (snd r) = t
                     \<and> ticket_deemed_incomplete (snd r) = Some True)
                 \<and> (\<exists>g\<in>set (ticket_ground_truth db). fst g = t \<and> truly_incomplete (snd g))}"
    by (simp add: length_remdups_card_conv set_true_positive_tickets)
  have none: "(\<forall>g\<in>set (ticket_ground_truth db). \<not> truly_incomplete (snd g))
      \<longleftrightarrow> ?labels = []"
    by (simp add: filter_empty_conv)
  have zero: "?labels = [] \<Longrightarrow> incomplete_detection_rate (compute_kpi2 db m) = 0
      \<and> kpi2_note (compute_kpi2 db m) \<noteq> []"
    by (simp add: compute_kpi2_def Let_def)
  have some: "?labels \<noteq> [] \<Longrightarrow>
      incomplete_detection_rate (compute_kpi2 db m)
        = real (length (remdups (true_positive_tickets db))) / real (length ?labels)
      \<and> true_positive_detections (compute_kpi2 db m)
        = length (remdups (true_positive_tickets db))"
    by (simp add: compute_kpi2_def Let_def)
  have total: "total_ground_truth_incomplete (compute_kpi2 db m) = length ?labels"
    by (simp add: compute_kpi2_def Let_def)
  have empty: "ticket_ground_truth db = [] \<Longrightarrow> ?labels = []" by simp
  show ?thesis
    using zero some total empty none tp by auto
qed

theorem kpi2_detection_rate_witness:
  "ticket_ground_truth empty_store = []
   \<and> incomplete_detection_rate (compute_kpi2 empty_store new_metrics) = 0
   \<and> kpi2_note (compute_kpi2 empty_store new_metrics) \<noteq> []
   \<and> list_ex (\<lambda>g. truly_incomplete (snd g)) (ticket_ground_truth two_labels_one_detected)
   \<and> total_ground_truth_incomplete (compute_kpi2 two_labels_one_detected new_metrics) = 2
   \<and> true_positive_detections (compute_kpi2 two_labels_one_detected new_metrics) = 1
   \<and> incomplete_detection_rate (compute_kpi2 two_labels_one_detected new_metrics) = 1 / 2"
proof -
  have no_labels: "ticket_ground_truth empty_store = []"
    by (simp add: empty_store_def)
  have labels: "\<exists>g\<in>set (ticket_ground_truth two_labels_one_detected). truly_incomplete (snd g)"
    by (simp add: two_labels_one_detected_def)
  have vals:
    "total_ground_truth_incomplete (compute_kpi2 two_labels_one_detected new_metrics) = 2"
    "true_positive_detections (compute_kpi2 two_labels_one_detected new_metrics) = 1"
    "incomplete_detection_rate (compute_kpi2 two_labels_one_detected new_metrics) = 1 / 2"
    by (simp_all add: compute_kpi2_def Let_def two_labels_one_detected_def insert_run_def
          empty_store_def new_ticket_run_def true_positive_tickets_def new_metrics_def)
  show ?thesis
    using no_labels labels vals
      kpi2_detection_rate [of empty_store new_metrics]
      kpi2_detection_rate [of two_labels_one_detected new_metrics]
    by (simp add: list_ex_iff)
qed

end
